theory Spec2Isabelle
  imports Main
begin

section \<open>The authentication session manager of NextBI\<close>

text \<open>
  A shallow embedding of \<^verbatim>\<open>frontend/src/services/authService.ts\<close> (the token store and the
  two backend exchanges) and of the \<^verbatim>\<open>AuthProvider\<close> component of the authentication context
  (startup resolution, login, logout, access tokens, the reaction to the
  \<^verbatim>\<open>nextbi:auth-changed\<close> event).

  The program runs in a browser. What it does beyond computing values is written out:
  \<^item> \<^verbatim>\<open>localStorage\<close> is a map from keys to strings, held in the state;
  \<^item> the React state of the provider (\<^verbatim>\<open>useState\<close>) is held in the same state record;
  \<^item> every write to storage, every state setter, every call that leaves the program
    (HTTP, the identity-provider client, navigation, event dispatch) is appended to a
    trace, in program order;
  \<^item> an awaited promise is an \<open>outcome\<close>: it resolves with a value or rejects with a thrown
    value; the outcomes of the calls an operation makes are its arguments;
  \<^item> \<^verbatim>\<open>console\<close> output is not modelled; \<^verbatim>\<open>window\<close> exists, and \<^verbatim>\<open>localStorage\<close> does not throw.
\<close>

subsection \<open>JavaScript values\<close>

text \<open>
  Values that travel as JSON (a response body, a user record), and \<^verbatim>\<open>undefined\<close>. A number
  is an integer here. An object is a list of its own properties, looked up by name.
\<close>

datatype jsval =
    JUndefined
  | JNull
  | JBool bool
  | JNum int
  | JStr string
  | JArr "jsval list"
  | JObj "(string \<times> jsval) list"

text \<open>\<^verbatim>\<open>ToBoolean\<close>: what \<^verbatim>\<open>if (v)\<close>, \<^verbatim>\<open>!!v\<close>, \<^verbatim>\<open>a && b\<close> and \<^verbatim>\<open>a || b\<close> test.\<close>

fun truthy :: "jsval \<Rightarrow> bool" where
  "truthy JUndefined = False"
| "truthy JNull = False"
| "truthy (JBool b) = b"
| "truthy (JNum n) = (n \<noteq> 0)"
| "truthy (JStr s) = (s \<noteq> [])"
| "truthy (JArr xs) = True"
| "truthy (JObj ps) = True"

fun nullish :: "jsval \<Rightarrow> bool" where
  "nullish JUndefined = True"
| "nullish JNull = True"
| "nullish v = False"

text \<open>
  A thrown value, as far as the program looks at it: \<^verbatim>\<open>instanceof InteractionRequiredAuthError\<close>,
  \<^verbatim>\<open>.message\<close>, \<^verbatim>\<open>.error\<close>, \<^verbatim>\<open>String(err)\<close> and \<^verbatim>\<open>.response?.data\<close>. A missing \<^verbatim>\<open>message\<close> or
  \<^verbatim>\<open>error\<close> is the empty string (both are only tested with \<^verbatim>\<open>||\<close>), a missing response is
  \<open>JUndefined\<close>.
\<close>

datatype exn = Exn
  (interaction_required: bool)
  (message: string)
  (error_prop: string)
  (as_string: string)
  (response_data: jsval)

text \<open>\<^verbatim>\<open>new Error(msg)\<close>.\<close>

definition new_Error :: "string \<Rightarrow> exn" where
  "new_Error msg = Exn False msg [] (''Error: '' @ msg) JUndefined"

text \<open>The \<^verbatim>\<open>TypeError\<close> of reading property \<open>p\<close> of \<^verbatim>\<open>null\<close> or \<^verbatim>\<open>undefined\<close> (the text is V8's).\<close>

definition TypeError_read :: "jsval \<Rightarrow> string \<Rightarrow> exn" where
  "TypeError_read v p =
     (let msg = ''Cannot read properties of '' @ (if v = JNull then ''null'' else ''undefined'')
                @ '' (reading '' @ [CHR 0x27] @ p @ [CHR 0x27] @ '')''
      in Exn False msg [] (''TypeError: '' @ msg) JUndefined)"

text \<open>
  \<open>js_prop v p\<close> is \<^verbatim>\<open>v.p\<close> for a \<open>v\<close> that is not nullish: an object's own property, else
  \<^verbatim>\<open>undefined\<close> (the names read by this program, \<^verbatim>\<open>success\<close>, \<^verbatim>\<open>data\<close>, \<^verbatim>\<open>token\<close> and \<^verbatim>\<open>user\<close>, are
  no built-in property of a string, number, boolean or array).
\<close>

fun js_prop :: "jsval \<Rightarrow> string \<Rightarrow> jsval" where
  "js_prop (JObj ps) p = (case map_of ps p of Some v \<Rightarrow> v | None \<Rightarrow> JUndefined)"
| "js_prop v p = JUndefined"

text \<open>\<^verbatim>\<open>v.p\<close>, which throws on a nullish \<open>v\<close>, and \<^verbatim>\<open>v?.p\<close>, which does not.\<close>

definition getprop :: "jsval \<Rightarrow> string \<Rightarrow> exn + jsval" where
  "getprop v p = (if nullish v then Inl (TypeError_read v p) else Inr (js_prop v p))"

definition getprop_opt :: "jsval \<Rightarrow> string \<Rightarrow> jsval" where
  "getprop_opt v p = (if nullish v then JUndefined else js_prop v p)"

text \<open>An awaited promise.\<close>

datatype 'a outcome = Resolved 'a | Rejected exn

text \<open>
  What the JavaScript runtime provides and this repository does not define:
  \<open>JSON_stringify u\<close> is the string \<^verbatim>\<open>localStorage.setItem\<close> stores for \<^verbatim>\<open>JSON.stringify(u)\<close>,
  \<open>JSON_parse s\<close> is \<^verbatim>\<open>JSON.parse(s)\<close> (\<open>None\<close> when it throws \<^verbatim>\<open>SyntaxError\<close>), and
  \<open>String_of v\<close> is \<^verbatim>\<open>String(v)\<close>, the string \<^verbatim>\<open>setItem\<close> stores for a value that is not a string.
\<close>

record js_runtime =
  JSON_stringify :: "jsval \<Rightarrow> string"
  JSON_parse :: "string \<Rightarrow> jsval option"
  String_of :: "jsval \<Rightarrow> string"

definition to_storage_string :: "js_runtime \<Rightarrow> jsval \<Rightarrow> string" where
  "to_storage_string rt v = (case v of JStr s \<Rightarrow> s | _ \<Rightarrow> String_of rt v)"

subsection \<open>The state and the trace\<close>

datatype AccountInfo = AccountInfo (homeAccountId: string) (username: string)

datatype msal_call =
    MsalNew
  | MsalInitialize
  | MsalAddEventCallback
  | MsalHandleRedirectPromise
  | MsalGetAllAccounts
  | MsalAcquireTokenSilent AccountInfo
  | MsalAcquireTokenPopup
  | MsalLoginRedirect
  | MsalLoginPopup
  | MsalLogoutPopup

datatype effect =
    SetItem string string
  | RemoveItem string
  | SetUserData jsval
  | SetIsAuthenticated bool
  | SetError "string option"
  | SetLoading bool
  | SetMsalInstance
  | SetMsalInitialized bool
  | HttpPost string jsval
  | DispatchEvent string jsval
  | Navigate string
  | Msal msal_call
  | CallLoginWithAzure AccountInfo
  | Sleep nat

text \<open>
  \<open>localStorage\<close> and the provider's \<^verbatim>\<open>useState\<close> cells (initially \<^verbatim>\<open>false\<close>, \<^verbatim>\<open>null\<close>, \<^verbatim>\<open>null\<close>,
  \<^verbatim>\<open>true\<close>, \<^verbatim>\<open>null\<close>, \<^verbatim>\<open>false\<close>); \<open>listening\<close> says whether the provider's handler of
  \<^verbatim>\<open>nextbi:auth-changed\<close> is registered on \<^verbatim>\<open>window\<close>.
\<close>

record world =
  localStorage :: "string \<rightharpoonup> string"
  isAuthenticated_state :: bool
  userData :: jsval
  error :: "string option"
  loading :: bool
  msalInstance :: bool
  msalInitialized :: bool
  listening :: bool
  trace :: "effect list"

definition emit :: "effect \<Rightarrow> world \<Rightarrow> world" where
  "emit e w = w\<lparr>trace := trace w @ [e]\<rparr>"

definition setItem :: "string \<Rightarrow> string \<Rightarrow> world \<Rightarrow> world" where
  "setItem k v w = emit (SetItem k v) (w\<lparr>localStorage := (localStorage w)(k \<mapsto> v)\<rparr>)"

definition removeItem :: "string \<Rightarrow> world \<Rightarrow> world" where
  "removeItem k w = emit (RemoveItem k) (w\<lparr>localStorage := (localStorage w)(k := None)\<rparr>)"

definition getItem :: "string \<Rightarrow> world \<Rightarrow> string option" where
  "getItem k w = localStorage w k"

definition setUserData :: "jsval \<Rightarrow> world \<Rightarrow> world" where
  "setUserData v w = emit (SetUserData v) (w\<lparr>userData := v\<rparr>)"

definition setIsAuthenticated :: "bool \<Rightarrow> world \<Rightarrow> world" where
  "setIsAuthenticated b w = emit (SetIsAuthenticated b) (w\<lparr>isAuthenticated_state := b\<rparr>)"

definition setError :: "string option \<Rightarrow> world \<Rightarrow> world" where
  "setError e w = emit (SetError e) (w\<lparr>error := e\<rparr>)"

definition setLoading :: "bool \<Rightarrow> world \<Rightarrow> world" where
  "setLoading b w = emit (SetLoading b) (w\<lparr>loading := b\<rparr>)"

definition setMsalInstance :: "world \<Rightarrow> world" where
  "setMsalInstance w = emit SetMsalInstance (w\<lparr>msalInstance := True\<rparr>)"

definition setMsalInitialized :: "bool \<Rightarrow> world \<Rightarrow> world" where
  "setMsalInitialized b w = emit (SetMsalInitialized b) (w\<lparr>msalInitialized := b\<rparr>)"

text \<open>\<^verbatim>\<open>window.location.href = url\<close>.\<close>

definition navigate :: "string \<Rightarrow> world \<Rightarrow> world" where
  "navigate url w = emit (Navigate url) w"

subsection \<open>The token store (authService.ts, lines 59 to 116)\<close>

definition API_URL :: string where
  "API_URL = ''http://localhost:3000''"

definition TOKEN_KEY :: string where
  "TOKEN_KEY = ''nextbi_auth_token''"

definition USER_KEY :: string where
  "USER_KEY = ''nextbi_user_data''"

definition AUTH_METHOD_KEY :: string where
  "AUTH_METHOD_KEY = ''nextbi_auth_method''"

definition getToken :: "world \<Rightarrow> string option" where
  "getToken w = getItem TOKEN_KEY w"

definition setToken :: "js_runtime \<Rightarrow> jsval \<Rightarrow> world \<Rightarrow> world" where
  "setToken rt token w = setItem TOKEN_KEY (to_storage_string rt token) w"

text \<open>\<open>JNull\<close> is the \<^verbatim>\<open>null\<close> the source returns; an empty string is falsy.\<close>

definition getUser :: "js_runtime \<Rightarrow> world \<Rightarrow> jsval" where
  "getUser rt w =
     (case getItem USER_KEY w of
        None \<Rightarrow> JNull
      | Some userStr \<Rightarrow>
          if userStr \<noteq> [] then
            (case JSON_parse rt userStr of Some v \<Rightarrow> v | None \<Rightarrow> JNull)
          else JNull)"

definition setUser :: "js_runtime \<Rightarrow> jsval \<Rightarrow> world \<Rightarrow> world" where
  "setUser rt u w = setItem USER_KEY (JSON_stringify rt u) w"

text \<open>\<^verbatim>\<open>!!getToken()\<close>.\<close>

definition isAuthenticated :: "world \<Rightarrow> bool" where
  "isAuthenticated w = (case getToken w of None \<Rightarrow> False | Some t \<Rightarrow> t \<noteq> [])"

definition clearAuthData :: "world \<Rightarrow> world" where
  "clearAuthData w = removeItem USER_KEY (removeItem TOKEN_KEY w)"

subsection \<open>Configuration (getClientEnv, isDevAuthEnabled)\<close>

text \<open>
  Where \<^verbatim>\<open>getClientEnv\<close> looks, in its order: \<^verbatim>\<open>process.env\<close> (\<open>None\<close> when \<^verbatim>\<open>process\<close> or
  \<^verbatim>\<open>process.env\<close> is missing), \<^verbatim>\<open>window.__env\<close> (\<open>None\<close> when missing), the properties of
  \<^verbatim>\<open>window\<close> itself, then the fallback. Every call site passes a fallback, and the values
  are strings.
\<close>

record client_env =
  process_env :: "(string \<rightharpoonup> string) option"
  window_env :: "(string \<rightharpoonup> string) option"
  window_props :: "string \<rightharpoonup> string"
  hostname :: string

definition getClientEnv :: "client_env \<Rightarrow> string \<Rightarrow> string \<Rightarrow> string" where
  "getClientEnv env key fallback =
     (case (case process_env env of Some pe \<Rightarrow> pe key | None \<Rightarrow> None) of
        Some v \<Rightarrow> v
      | None \<Rightarrow>
          (case (case window_env env of Some we \<Rightarrow> we key | None \<Rightarrow> None) of
             Some v \<Rightarrow> v
           | None \<Rightarrow>
               (case window_props env key of
                  Some v \<Rightarrow> v
                | None \<Rightarrow> fallback)))"

definition isDevAuthEnabled :: "client_env \<Rightarrow> bool" where
  "isDevAuthEnabled env =
     (if getClientEnv env ''REACT_APP_DEV_AUTH'' ''false'' = ''true'' then True
      else if hostname env = ''localhost'' \<or> hostname env = ''127.0.0.1'' then True
      else False)"

subsection \<open>The reaction to nextbi:auth-changed (AuthProvider, lines 375 to 397)\<close>

definition auth_changed_handler :: "js_runtime \<Rightarrow> world \<Rightarrow> world" where
  "auth_changed_handler rt w =
     (let storedUser = getUser rt w in
      if truthy storedUser then
        setError None (setIsAuthenticated True (setUserData storedUser w))
      else
        setIsAuthenticated False (setUserData JNull w))"

text \<open>
  \<^verbatim>\<open>window.dispatchEvent(new CustomEvent(name, { detail }))\<close>: the listeners run before it
  returns. The only listener in the sources is the provider's.
\<close>

definition dispatchEvent :: "js_runtime \<Rightarrow> string \<Rightarrow> jsval \<Rightarrow> world \<Rightarrow> world" where
  "dispatchEvent rt name detail w =
     (let w1 = emit (DispatchEvent name detail) w in
      if listening w1 \<and> name = ''nextbi:auth-changed'' then auth_changed_handler rt w1 else w1)"

subsection \<open>The backend exchanges (authService.ts, lines 13 to 54 and 122 to 179)\<close>

datatype userInfo = UserInfo
  (ui_id: string)
  (ui_displayName: string)
  (ui_email: string)
  (ui_photoUrl: jsval)

definition synthesized_user :: "userInfo \<Rightarrow> jsval" where
  "synthesized_user userInfo =
     JObj [(''id'', JStr (ui_id userInfo)),
           (''displayName'', JStr (ui_displayName userInfo)),
           (''email'', JStr (ui_email userInfo))]"

text \<open>
  \<open>post\<close> is the outcome of \<^verbatim>\<open>axios.post\<close>: the response's \<^verbatim>\<open>data\<close>, or the rejection. The result
  is \<open>Inr token\<close> when the promise resolves and \<open>Inl e\<close> when it rejects with \<open>e\<close>; the
  \<^verbatim>\<open>catch\<close> block logs and rethrows what it caught.
\<close>

definition exchangeAzureToken ::
  "js_runtime \<Rightarrow> userInfo \<Rightarrow> jsval outcome \<Rightarrow> world \<Rightarrow> (exn + jsval) \<times> world" where
  "exchangeAzureToken rt userInfo post w =
     (let body = JObj [(''azureId'', JStr (ui_id userInfo)),
                       (''displayName'', JStr (ui_displayName userInfo)),
                       (''email'', JStr (ui_email userInfo)),
                       (''photoUrl'', ui_photoUrl userInfo)];
          w1 = emit (HttpPost (API_URL @ ''/api/auth/azure'') body) w
      in case post of
           Rejected e \<Rightarrow> (Inl e, w1)
         | Resolved d \<Rightarrow>
             (case getprop d ''success'' of
                Inl e \<Rightarrow> (Inl e, w1)
              | Inr s \<Rightarrow>
                  if truthy s then
                    (case getprop d ''data'' of
                       Inl e \<Rightarrow> (Inl e, w1)
                     | Inr dd \<Rightarrow>
                         (case getprop dd ''token'' of
                            Inl e \<Rightarrow> (Inl e, w1)
                          | Inr token \<Rightarrow>
                              if truthy token then
                                (case getprop dd ''user'' of
                                   Inl e \<Rightarrow> (Inl e, w1)
                                 | Inr u \<Rightarrow>
                                     (let userData = (if truthy u then u
                                                      else synthesized_user userInfo)
                                      in (Inr token, setUser rt userData (setToken rt token w1))))
                              else (Inl (new_Error ''Failed to get backend token''), w1)))
                  else (Inl (new_Error ''Failed to get backend token''), w1)))"

text \<open>The argument of \<^verbatim>\<open>devLogin\<close>; a field left out is \<open>None\<close>.\<close>

datatype dev_opts = DevOpts
  (opt_email: "string option")
  (opt_displayName: "string option")
  (opt_avatar: "string option")

text \<open>\<^verbatim>\<open>opts?.field || fallback\<close>.\<close>

definition or_default :: "string option \<Rightarrow> string \<Rightarrow> string" where
  "or_default x d = (case x of Some s \<Rightarrow> if s \<noteq> [] then s else d | None \<Rightarrow> d)"

text \<open>
  The \<^verbatim>\<open>error\<close> field of \<^verbatim>\<open>devLogin\<close>'s result holds a JSON value or the thrown value itself.
  A field the result object does not have is \<open>JUndefined\<close>.
\<close>

datatype caught = Val jsval | Thrown exn

datatype dev_result = DevResult
  (dr_success: bool)
  (dr_token: jsval)
  (dr_user: jsval)
  (dr_error: caught)

text \<open>\<^verbatim>\<open>error.response?.data || error.message || error\<close>.\<close>

definition dev_error_of :: "exn \<Rightarrow> caught" where
  "dev_error_of e =
     (if truthy (response_data e) then Val (response_data e)
      else if message e \<noteq> [] then Val (JStr (message e))
      else Thrown e)"

definition dev_failure :: "caught \<Rightarrow> dev_result" where
  "dev_failure c = DevResult False JUndefined JUndefined c"

definition dev_payload :: "client_env \<Rightarrow> dev_opts option \<Rightarrow> jsval" where
  "dev_payload env opts =
     JObj [(''email'', JStr (or_default (case opts of Some x \<Rightarrow> opt_email x | None \<Rightarrow> None)
                (getClientEnv env ''REACT_APP_DEV_TEST_EMAIL'' ''dev@local.test''))),
           (''displayName'', JStr (or_default (case opts of Some x \<Rightarrow> opt_displayName x | None \<Rightarrow> None)
                (getClientEnv env ''REACT_APP_DEV_DISPLAYNAME'' ''Developer''))),
           (''avatar'', (case (case opts of Some x \<Rightarrow> opt_avatar x | None \<Rightarrow> None) of
                           Some a \<Rightarrow> if a \<noteq> [] then JStr a else JNull
                         | None \<Rightarrow> JNull))]"

text \<open>
  \<^verbatim>\<open>devLogin\<close> never rejects: its \<^verbatim>\<open>catch\<close> block turns what is thrown into a failure result.
  Once \<^verbatim>\<open>response.data.data?.token\<close> is truthy, the second read of
  \<^verbatim>\<open>response.data.data.token\<close> gives the same value.
  In a browser \<^verbatim>\<open>window.dispatchEvent\<close> is a function and a listener's exception does not
  reach the dispatcher, so lines 163 to 169 dispatch the event and do not throw.
\<close>

definition devLogin ::
  "js_runtime \<Rightarrow> client_env \<Rightarrow> dev_opts option \<Rightarrow> jsval outcome \<Rightarrow> world
     \<Rightarrow> dev_result \<times> world" where
  "devLogin rt env opts post w =
     (let payload = dev_payload env opts;
          w1 = emit (HttpPost (API_URL @ ''/api/auth/dev'') payload) w
      in case post of
           Rejected e \<Rightarrow> (dev_failure (dev_error_of e), w1)
         | Resolved d \<Rightarrow>
             (case getprop d ''success'' of
                Inl e \<Rightarrow> (dev_failure (dev_error_of e), w1)
              | Inr s \<Rightarrow>
                  if truthy s then
                    (case getprop d ''data'' of
                       Inl e \<Rightarrow> (dev_failure (dev_error_of e), w1)
                     | Inr dd \<Rightarrow>
                         (let token = getprop_opt dd ''token'' in
                          if truthy token then
                            (case getprop dd ''user'' of
                               Inl e \<Rightarrow> (dev_failure (dev_error_of e), w1)
                             | Inr u \<Rightarrow>
                                 (let w2 = setUser rt u (setToken rt token w1);
                                      w3 = dispatchEvent rt ''nextbi:auth-changed''
                                             (JObj [(''method'', JStr ''dev''), (''user'', u)]) w2
                                  in (DevResult True token u (Val JUndefined), w3)))
                          else (dev_failure (Val d), w1)))
                  else (dev_failure (Val d), w1)))"

subsection \<open>What the provider component calls\<close>

text \<open>
  \<^verbatim>\<open>getStoredSession\<close> and \<^verbatim>\<open>loginWithAzure\<close> are imported from \<^verbatim>\<open>services/loginService\<close>,
  which is not among the sources: they are parameters. \<open>getStoredSession\<close> reads storage;
  \<open>loginWithAzure\<close> gives the outcome of its promise and the storage it leaves.
\<close>

record login_service =
  getStoredSession :: "(string \<rightharpoonup> string) \<Rightarrow> jsval"
  loginWithAzure ::
    "AccountInfo \<Rightarrow> (string \<rightharpoonup> string) \<Rightarrow> jsval outcome \<times> (string \<rightharpoonup> string)"

text \<open>
  The outcomes of the calls that leave the program, one for each call an operation can make:
  the HTTP request of \<^verbatim>\<open>devLogin\<close> and the methods of the identity-provider client
  (\<^verbatim>\<open>PublicClientApplication\<close>). A token response is given by its \<^verbatim>\<open>accessToken\<close>, a redirect
  or popup result by its \<^verbatim>\<open>account\<close> (\<open>None\<close> when the result or its account is missing).
  A call that throws is a rejected outcome.
\<close>

record calls =
  axios_post_dev :: "jsval outcome"
  new_PublicClientApplication :: "unit outcome"
  initialize :: "unit outcome"
  handleRedirectPromise :: "AccountInfo option outcome"
  getAllAccounts :: "AccountInfo list outcome"
  acquireTokenSilent :: "string outcome"
  acquireTokenPopup :: "string outcome"
  loginRedirect :: "unit outcome"
  loginPopup :: "AccountInfo option outcome"
  logoutPopup :: "unit outcome"

subsection \<open>exchangeTokenForJWT (lines 275 to 291)\<close>

definition backend_failed :: string where
  "backend_failed = ''Failed to authenticate with backend.''"

definition exchangeTokenForJWT ::
  "login_service \<Rightarrow> AccountInfo \<Rightarrow> world \<Rightarrow> world" where
  "exchangeTokenForJWT ls account w =
     (let w1 = emit (CallLoginWithAzure account) w;
          (res, st) = loginWithAzure ls account (localStorage w1);
          w2 = w1\<lparr>localStorage := st\<rparr>
      in case res of
           Rejected err \<Rightarrow> setError (Some backend_failed) w2
         | Resolved result \<Rightarrow>
             if truthy (getprop_opt result ''success'') then
               (case getprop result ''user'' of
                  Inl err \<Rightarrow> setError (Some backend_failed) w2
                | Inr u \<Rightarrow>
                    navigate ''/''
                      (setError None
                        (setItem AUTH_METHOD_KEY ''msal''
                          (setIsAuthenticated True (setUserData u w2)))))
             else setError (Some backend_failed) w2)"

subsection \<open>Startup resolution: initializeMsal (lines 293 to 368)\<close>

definition default_dev_opts :: "client_env \<Rightarrow> dev_opts" where
  "default_dev_opts env =
     DevOpts (Some (getClientEnv env ''REACT_APP_DEV_TEST_EMAIL'' ''dev@local.test''))
             (Some (getClientEnv env ''REACT_APP_DEV_DISPLAYNAME'' ''Developer''))
             None"

text \<open>The \<^verbatim>\<open>try\<close> block: the state it leaves, and what it threw, if anything.\<close>

definition initializeMsal_try ::
  "js_runtime \<Rightarrow> client_env \<Rightarrow> login_service \<Rightarrow> calls \<Rightarrow> world \<Rightarrow> exn option \<times> world" where
  "initializeMsal_try rt env ls c w =
     (if isDevAuthEnabled env then
        (let storedSession = getStoredSession ls (localStorage w);
             storedUser = getUser rt w
         in if truthy storedSession \<and> truthy storedUser then
              (None, setLoading False (setIsAuthenticated True (setUserData storedUser w)))
            else
              (let (devResult, w1) =
                     devLogin rt env (Some (default_dev_opts env)) (axios_post_dev c) w
               in if dr_success devResult then
                    (None, setLoading False
                             (setItem AUTH_METHOD_KEY ''dev''
                               (setIsAuthenticated True (setUserData (dr_user devResult) w1))))
                  else
                    (None, setLoading False (setError (Some ''Development login failed'') w1))))
      else if msalInitialized w \<or> msalInstance w then (None, w)
      else
        (let w1 = emit (Msal MsalNew) w in
         case new_PublicClientApplication c of
           Rejected err \<Rightarrow> (Some err, w1)
         | Resolved _ \<Rightarrow>
             (let w2 = emit (Msal MsalInitialize) w1 in
              case initialize c of
                Rejected err \<Rightarrow> (Some err, w2)
              | Resolved _ \<Rightarrow>
                  (let w3 = emit (Msal MsalAddEventCallback)
                              (setMsalInitialized True (setMsalInstance w2));
                       w4 = emit (Msal MsalHandleRedirectPromise) w3
                   in case handleRedirectPromise c of
                        Rejected err \<Rightarrow> (Some err, w4)
                      | Resolved (Some account) \<Rightarrow> (None, exchangeTokenForJWT ls account w4)
                      | Resolved None \<Rightarrow>
                          (let storedSession = getStoredSession ls (localStorage w4);
                               storedUser = getUser rt w4
                           in if truthy storedSession \<and> truthy storedUser then
                                (None, setIsAuthenticated True (setUserData storedUser w4))
                              else
                                (let w5 = emit (Msal MsalGetAllAccounts) w4 in
                                 case getAllAccounts c of
                                   Rejected err \<Rightarrow> (Some err, w5)
                                 | Resolved [] \<Rightarrow> (None, w5)
                                 | Resolved (a # rest) \<Rightarrow>
                                     (None, exchangeTokenForJWT ls a w5)))))))"

text \<open>The \<^verbatim>\<open>catch\<close> block, then the \<^verbatim>\<open>finally\<close> block.\<close>

definition initializeMsal ::
  "js_runtime \<Rightarrow> client_env \<Rightarrow> login_service \<Rightarrow> calls \<Rightarrow> world \<Rightarrow> world" where
  "initializeMsal rt env ls c w =
     (let (thrown, w1) = initializeMsal_try rt env ls c w;
          w2 = (case thrown of
                  Some err \<Rightarrow> setError (Some ''Failed to initialize authentication.'') w1
                | None \<Rightarrow> w1)
      in setLoading False w2)"

subsection \<open>getAccessToken (lines 400 to 423)\<close>

text \<open>\<open>Inr None\<close> is \<^verbatim>\<open>null\<close>; \<open>Inl e\<close> is a rejection of the returned promise.\<close>

definition getAccessToken ::
  "client_env \<Rightarrow> calls \<Rightarrow> world \<Rightarrow> (exn + string option) \<times> world" where
  "getAccessToken env c w =
     (if isDevAuthEnabled env then (Inr (getToken w), w)
      else if \<not> msalInstance w then (Inr None, w)
      else
        (let w1 = emit (Msal MsalGetAllAccounts) w in
         case getAllAccounts c of
           Rejected err \<Rightarrow> (Inl err, w1)
         | Resolved [] \<Rightarrow> (Inr None, w1)
         | Resolved (a # rest) \<Rightarrow>
             (let w2 = emit (Msal (MsalAcquireTokenSilent a)) w1 in
              case acquireTokenSilent c of
                Resolved accessToken \<Rightarrow> (Inr (Some accessToken), w2)
              | Rejected err \<Rightarrow>
                  if interaction_required err then
                    (let w3 = emit (Msal MsalAcquireTokenPopup) w2 in
                     case acquireTokenPopup c of
                       Resolved accessToken \<Rightarrow> (Inr (Some accessToken), w3)
                     | Rejected err2 \<Rightarrow> (Inl err2, w3))
                  else (Inr None, w2))))"

subsection \<open>getFriendlyAuthError (lines 426 to 440)\<close>

fun starts_with :: "string \<Rightarrow> string \<Rightarrow> bool" where
  "starts_with s [] = True"
| "starts_with [] (c # cs) = False"
| "starts_with (x # xs) (c # cs) = (x = c \<and> starts_with xs cs)"

text \<open>\<^verbatim>\<open>s.includes(sub)\<close>.\<close>

fun str_includes :: "string \<Rightarrow> string \<Rightarrow> bool" where
  "str_includes [] sub = (sub = [])"
| "str_includes (x # xs) sub = (starts_with (x # xs) sub \<or> str_includes xs sub)"

definition tenant_message :: string where
  "tenant_message = ''Account not found in tenant. Sign in with an account in the tenant or ask the tenant admin to invite your account as a guest. For local testing enable DEV_AUTH or use an account from the tenant.''"

definition cancelled_message :: string where
  "cancelled_message = ''Sign-in was cancelled or blocked by the browser. Try using the ''
     @ [CHR 0x22] @ ''Sign in'' @ [CHR 0x22]
     @ '' button again (redirect) or enable Dev sign-in for local testing.''"

text \<open>\<open>None\<close> is \<^verbatim>\<open>null\<close>. A thrown value is an object here, so \<^verbatim>\<open>err &&\<close> passes.\<close>

definition getFriendlyAuthError :: "exn \<Rightarrow> string option" where
  "getFriendlyAuthError err =
     (let msg = (if message err \<noteq> [] then message err
                 else if error_prop err \<noteq> [] then error_prop err
                 else as_string err)
      in if str_includes msg ''AADSTS50020'' then Some tenant_message
         else if str_includes msg ''user_cancelled'' \<or> str_includes msg ''Popup window closed''
           then Some cancelled_message
         else if msg \<noteq> [] then Some msg
         else None)"

text \<open>\<^verbatim>\<open>friendly || (err?.message || "Login failed.")\<close>.\<close>

definition login_error_message :: "exn \<Rightarrow> string" where
  "login_error_message err =
     (case getFriendlyAuthError err of
        Some friendly \<Rightarrow>
          if friendly \<noteq> [] then friendly
          else if message err \<noteq> [] then message err else ''Login failed.''
      | None \<Rightarrow> if message err \<noteq> [] then message err else ''Login failed.'')"

subsection \<open>login (lines 443 to 526)\<close>

text \<open>
  The wait for the client (lines 477 to 480): \<open>ready\<close> is \<^verbatim>\<open>msalInitialized\<close>, a constant of
  the render that created this \<^verbatim>\<open>login\<close>; the loop reads it and cannot change it.
\<close>

fun wait_for_msal :: "bool \<Rightarrow> nat \<Rightarrow> world \<Rightarrow> world" where
  "wait_for_msal ready 0 w = w"
| "wait_for_msal ready (Suc n) w =
     (let w1 = emit (Sleep 300) w in if ready then w1 else wait_for_msal ready n w1)"

text \<open>Lines 487 to 518: the provider flow once the client is ready.\<close>

definition login_provider_flow ::
  "login_service \<Rightarrow> calls \<Rightarrow> world \<Rightarrow> exn option \<times> world" where
  "login_provider_flow ls c w =
     (let w1 = setLoading True (setError None w);
          w2 = emit (Msal MsalGetAllAccounts) w1
      in case getAllAccounts c of
           Rejected err \<Rightarrow> (Some err, w2)
         | Resolved (a # rest) \<Rightarrow> (None, exchangeTokenForJWT ls a w2)
         | Resolved [] \<Rightarrow>
             (let w3 = emit (Msal MsalLoginRedirect) w2 in
              case loginRedirect c of
                Resolved _ \<Rightarrow> (None, w3)
              | Rejected innerErr \<Rightarrow>
                  (let w4 = emit (Msal MsalLoginPopup) w3 in
                   case loginPopup c of
                     Resolved (Some account) \<Rightarrow> (None, exchangeTokenForJWT ls account w4)
                   | Resolved None \<Rightarrow>
                       (None, setError (Some ''No account information returned.'') w4)
                   | Rejected popupErr \<Rightarrow>
                       (None, setError (Some (login_error_message popupErr)) w4))))"

definition login_try ::
  "js_runtime \<Rightarrow> client_env \<Rightarrow> login_service \<Rightarrow> calls \<Rightarrow> world \<Rightarrow> exn option \<times> world" where
  "login_try rt env ls c w =
     (if isDevAuthEnabled env then
        (let w1 = setError None (setLoading True w);
             (result, w2) = devLogin rt env (Some (default_dev_opts env)) (axios_post_dev c) w1;
             w3 = (if dr_success result then
                     navigate ''/''
                       (setError None
                         (setItem AUTH_METHOD_KEY ''dev''
                           (setIsAuthenticated True (setUserData (dr_user result) w2))))
                   else setError (Some ''Development login failed'') w2)
         in (None, setLoading False w3))
      else if \<not> msalInstance w then
        (None, setError (Some ''Authentication not initialized yet. Please wait a moment.'') w)
      else if \<not> msalInitialized w then
        (let w1 = wait_for_msal (msalInitialized w) 10 w in
         if \<not> msalInitialized w then (None, setError (Some ''Authentication not initialized'') w1)
         else login_provider_flow ls c w1)
      else login_provider_flow ls c w)"

definition login ::
  "js_runtime \<Rightarrow> client_env \<Rightarrow> login_service \<Rightarrow> calls \<Rightarrow> world \<Rightarrow> world" where
  "login rt env ls c w =
     (let (thrown, w1) = login_try rt env ls c w;
          w2 = (case thrown of
                  Some err \<Rightarrow> setError (Some (login_error_message err)) w1
                | None \<Rightarrow> w1)
      in setLoading False w2)"

subsection \<open>logout (lines 529 to 546)\<close>

text \<open>The \<^verbatim>\<open>catch\<close> block only logs; the \<^verbatim>\<open>finally\<close> block navigates.\<close>

definition logout_try :: "calls \<Rightarrow> world \<Rightarrow> exn option \<times> world" where
  "logout_try c w =
     (let method = getItem AUTH_METHOD_KEY w;
          w1 = setUserData JNull (setIsAuthenticated False (clearAuthData w))
      in if method = Some ''msal'' \<and> msalInstance w then
           (let w2 = emit (Msal MsalLogoutPopup) w1 in
            case logoutPopup c of
              Rejected err \<Rightarrow> (Some err, w2)
            | Resolved _ \<Rightarrow> (None, w2))
         else (None, w1))"

definition logout :: "calls \<Rightarrow> world \<Rightarrow> world" where
  "logout c w = (let (thrown, w1) = logout_try c w in navigate ''/login'' w1)"

subsection \<open>The mount with developer bypass (App.tsx, lines 34 and 44 to 65)\<close>

text \<open>
  \<^verbatim>\<open>devLogin\<close> in its two halves: up to its \<^verbatim>\<open>await axios.post\<close> (the request leaves), and from
  the response on (lines 153 to 178), over the state at the time the response arrives.
\<close>

definition devLogin_send :: "client_env \<Rightarrow> dev_opts option \<Rightarrow> world \<Rightarrow> world" where
  "devLogin_send env opts w =
     emit (HttpPost (API_URL @ ''/api/auth/dev'') (dev_payload env opts)) w"

definition devLogin_receive ::
  "js_runtime \<Rightarrow> jsval outcome \<Rightarrow> world \<Rightarrow> dev_result \<times> world" where
  "devLogin_receive rt post w1 =
     (case post of
        Rejected e \<Rightarrow> (dev_failure (dev_error_of e), w1)
      | Resolved d \<Rightarrow>
          (case getprop d ''success'' of
             Inl e \<Rightarrow> (dev_failure (dev_error_of e), w1)
           | Inr s \<Rightarrow>
               if truthy s then
                 (case getprop d ''data'' of
                    Inl e \<Rightarrow> (dev_failure (dev_error_of e), w1)
                  | Inr dd \<Rightarrow>
                      (let token = getprop_opt dd ''token'' in
                       if truthy token then
                         (case getprop dd ''user'' of
                            Inl e \<Rightarrow> (dev_failure (dev_error_of e), w1)
                          | Inr u \<Rightarrow>
                              (let w2 = setUser rt u (setToken rt token w1);
                                   w3 = dispatchEvent rt ''nextbi:auth-changed''
                                          (JObj [(''method'', JStr ''dev''), (''user'', u)]) w2
                               in (DevResult True token u (Val JUndefined), w3)))
                       else (dev_failure (Val d), w1)))
               else (dev_failure (Val d), w1)))"

text \<open>\<^verbatim>\<open>DEV_AUTH\<close> of App.tsx (line 34): the flag alone, not the host name.\<close>

definition DEV_AUTH :: "client_env \<Rightarrow> bool" where
  "DEV_AUTH env = (getClientEnv env ''REACT_APP_DEV_AUTH'' ''false'' = ''true'')"

text \<open>
  Whether the effect of \<^verbatim>\<open>App\<close> (lines 44 to 65) calls \<^verbatim>\<open>devLogin\<close>: \<^verbatim>\<open>DEV_AUTH\<close> is set and
  \<^verbatim>\<open>getToken()\<close> is falsy. What it does with the result is \<^verbatim>\<open>console\<close> output only.
\<close>

definition app_seed_wanted :: "client_env \<Rightarrow> world \<Rightarrow> bool" where
  "app_seed_wanted env w =
     (DEV_AUTH env \<and> (case getToken w of None \<Rightarrow> True | Some existing \<Rightarrow> existing = []))"

text \<open>
  What \<^verbatim>\<open>initializeMsal\<close> does with the result of its \<^verbatim>\<open>devLogin\<close> (lines 313 to 324), and
  its \<^verbatim>\<open>finally\<close> block.
\<close>

definition initializeMsal_dev_finish :: "dev_result \<Rightarrow> world \<Rightarrow> world" where
  "initializeMsal_dev_finish devResult w1 =
     setLoading False
       (if dr_success devResult then
          setLoading False
            (setItem AUTH_METHOD_KEY ''dev''
              (setIsAuthenticated True (setUserData (dr_user devResult) w1)))
        else setLoading False (setError (Some ''Development login failed'') w1))"

text \<open>
  The first commit of \<^verbatim>\<open>App\<close> under \<^verbatim>\<open>AuthProvider\<close>, with developer bypass enabled. The
  effects run one after the other, each up to its first \<^verbatim>\<open>await\<close>: the effect of \<^verbatim>\<open>App\<close> (the
  child) sends its request if it wants to seed; then \<^verbatim>\<open>initializeMsal\<close> reads the store, which
  no response has changed yet, and restores the session or sends its own request; then
  the handler of \<^verbatim>\<open>nextbi:auth-changed\<close> is registered. The responses come afterwards,
  the one to the request of \<^verbatim>\<open>App\<close> first when \<open>seed_first\<close> holds. \<open>seed_post\<close> and
  \<open>init_post\<close> are the outcomes of the two requests.
\<close>

definition dev_mount ::
  "js_runtime \<Rightarrow> client_env \<Rightarrow> login_service \<Rightarrow> jsval outcome \<Rightarrow> jsval outcome \<Rightarrow> bool
     \<Rightarrow> world \<Rightarrow> world" where
  "dev_mount rt env ls seed_post init_post seed_first w =
     (let seeding = app_seed_wanted env w;
          w1 = (if seeding then devLogin_send env (Some (default_dev_opts env)) w else w);
          storedSession = getStoredSession ls (localStorage w1);
          storedUser = getUser rt w1
      in if truthy storedSession \<and> truthy storedUser then
           (let w2 = setLoading False
                       (setLoading False (setIsAuthenticated True (setUserData storedUser w1)));
                w3 = w2\<lparr>listening := True\<rparr>
            in if seeding then snd (devLogin_receive rt seed_post w3) else w3)
         else
           (let w2 = (devLogin_send env (Some (default_dev_opts env)) w1)\<lparr>listening := True\<rparr>
            in if seeding \<and> seed_first then
                 (let w3 = snd (devLogin_receive rt seed_post w2);
                      (devResult, w4) = devLogin_receive rt init_post w3
                  in initializeMsal_dev_finish devResult w4)
               else
                 (let (devResult, w3) = devLogin_receive rt init_post w2;
                      w4 = initializeMsal_dev_finish devResult w3
                  in if seeding then snd (devLogin_receive rt seed_post w4) else w4)))"

subsection \<open>The words of the specification\<close>

text \<open>
  A user record is JSON-serializable for a runtime when \<^verbatim>\<open>JSON.stringify\<close> gives a text
  (never the empty string) that \<^verbatim>\<open>JSON.parse\<close> reads back as the same value.
\<close>

definition json_serializable :: "js_runtime \<Rightarrow> jsval \<Rightarrow> bool" where
  "json_serializable rt u =
     (JSON_stringify rt u \<noteq> [] \<and> JSON_parse rt (JSON_stringify rt u) = Some u)"

text \<open>The Token Store holds a non-empty session token.\<close>

definition holds_session_token :: "world \<Rightarrow> bool" where
  "holds_session_token w =
     (case localStorage w TOKEN_KEY of None \<Rightarrow> False | Some t \<Rightarrow> t \<noteq> [])"

text \<open>
  The Token Store holds a user record: the text under the user key is there, is not empty
  and parses to a value that is not falsy.
\<close>

definition holds_user_record :: "js_runtime \<Rightarrow> world \<Rightarrow> bool" where
  "holds_user_record rt w =
     (case localStorage w USER_KEY of
        None \<Rightarrow> False
      | Some s \<Rightarrow>
          if s = [] then False
          else (case JSON_parse rt s of None \<Rightarrow> False | Some v \<Rightarrow> truthy v))"

fun is_dispatch :: "effect \<Rightarrow> bool" where
  "is_dispatch (DispatchEvent name detail) = True"
| "is_dispatch e = False"

text \<open>
  An exchange call: a request to the backend, or the call of \<^verbatim>\<open>loginWithAzure\<close>, which makes
  the provider exchange.
\<close>

fun is_exchange :: "effect \<Rightarrow> bool" where
  "is_exchange (HttpPost url body) = True"
| "is_exchange (CallLoginWithAzure account) = True"
| "is_exchange e = False"


fun is_storage_write :: "effect \<Rightarrow> bool" where
  "is_storage_write (SetItem k v) = True"
| "is_storage_write (RemoveItem k) = True"
| "is_storage_write e = False"

text \<open>\<^verbatim>\<open>response.data.data.token\<close> and \<^verbatim>\<open>response.data.data.user\<close> of a response body \<open>d\<close>.\<close>

definition response_token :: "jsval \<Rightarrow> jsval" where
  "response_token d = js_prop (js_prop d ''data'') ''token''"

definition response_user :: "jsval \<Rightarrow> jsval" where
  "response_user d = js_prop (js_prop d ''data'') ''user''"

text \<open>The silent acquisition failed with the interaction-required condition.\<close>

definition silent_needs_interaction :: "calls \<Rightarrow> bool" where
  "silent_needs_interaction c =
     (case acquireTokenSilent c of Resolved t \<Rightarrow> False | Rejected err \<Rightarrow> interaction_required err)"






subsection \<open>Example inputs\<close>

definition demo_user :: jsval where
  "demo_user = JObj [(''id'', JNum 1)]"

definition demo_user_text :: string where
  "demo_user_text = ''{'' @ [CHR 0x22] @ ''id'' @ [CHR 0x22] @ '':1}''"

text \<open>
  A fragment of the runtime, enough for the examples: the JSON text of \<open>demo_user\<close> and of
  \<^verbatim>\<open>null\<close>; any other text does not parse.
\<close>

definition demo_runtime :: js_runtime where
  "demo_runtime =
     \<lparr>JSON_stringify = (\<lambda>v. if v = demo_user then demo_user_text
                              else if v = JNull then ''null'' else ''undefined''),
      JSON_parse = (\<lambda>s. if s = demo_user_text then Some demo_user
                          else if s = ''null'' then Some JNull else None),
      String_of = (\<lambda>v. ''[object Object]'')\<rparr>"

text \<open>The provider component just mounted, over an empty storage.\<close>

definition initial_world :: world where
  "initial_world =
     \<lparr>localStorage = Map.empty, isAuthenticated_state = False, userData = JNull,
      error = None, loading = True, msalInstance = False, msalInitialized = False,
      listening = True, trace = []\<rparr>"

text \<open>Storage that holds a token only, a user record only, and a whole developer session.\<close>

definition token_only_world :: world where
  "token_only_world = initial_world\<lparr>localStorage := [TOKEN_KEY \<mapsto> ''abc'']\<rparr>"

definition user_only_world :: world where
  "user_only_world = initial_world\<lparr>localStorage := [USER_KEY \<mapsto> demo_user_text]\<rparr>"

definition session_world :: world where
  "session_world = initial_world\<lparr>localStorage :=
      [TOKEN_KEY \<mapsto> ''abc'', USER_KEY \<mapsto> demo_user_text, AUTH_METHOD_KEY \<mapsto> ''dev'']\<rparr>"

text \<open>Response bodies: a success with a user, a success without one, and a refusal.\<close>

definition ok_response :: jsval where
  "ok_response = JObj [(''success'', JBool True),
                       (''data'', JObj [(''token'', JStr ''abc''), (''user'', demo_user)])]"

definition no_user_response :: jsval where
  "no_user_response =
     JObj [(''success'', JBool True), (''data'', JObj [(''token'', JStr ''abc'')])]"

definition boom_response :: jsval where
  "boom_response = JObj [(''success'', JBool False), (''error'', JStr ''boom'')]"

text \<open>A request that got no response.\<close>

definition network_error :: exn where
  "network_error = Exn False ''Network Error'' [] ''AxiosError: Network Error'' JUndefined"

definition demo_userInfo :: userInfo where
  "demo_userInfo = UserInfo ''42'' ''Ada'' ''ada@example.org'' JUndefined"

text \<open>No configuration at all, on the local host: developer bypass is enabled.\<close>

definition demo_env :: client_env where
  "demo_env =
     \<lparr>process_env = None, window_env = None, window_props = Map.empty,
      hostname = ''localhost''\<rparr>"


text \<open>A provider account, the interaction-required failure, and calls that all succeed.\<close>

definition demo_account :: AccountInfo where
  "demo_account = AccountInfo ''home-1'' ''ada@example.org''"

definition interaction_error :: exn where
  "interaction_error =
     Exn True ''interaction_required'' []
       ''InteractionRequiredAuthError: interaction_required'' JUndefined"

definition demo_calls :: calls where
  "demo_calls =
     \<lparr>axios_post_dev = Resolved ok_response,
      new_PublicClientApplication = Resolved (),
      initialize = Resolved (),
      handleRedirectPromise = Resolved None,
      getAllAccounts = Resolved [demo_account],
      acquireTokenSilent = Resolved ''provider-token'',
      acquireTokenPopup = Resolved ''popup-token'',
      loginRedirect = Resolved (),
      loginPopup = Resolved (Some demo_account),
      logoutPopup = Resolved ()\<rparr>"

text \<open>A deployed host without developer bypass, and a provider component holding a client.\<close>

definition prod_env :: client_env where
  "prod_env =
     \<lparr>process_env = None, window_env = None, window_props = Map.empty,
      hostname = ''bi.example.org''\<rparr>"

definition provider_world :: world where
  "provider_world = initial_world\<lparr>msalInstance := True, msalInitialized := True\<rparr>"


text \<open>The user closed the popup.\<close>

definition popup_cancelled :: exn where
  "popup_cancelled =
     Exn False ''user_cancelled: User cancelled the flow.'' []
       ''BrowserAuthError: user_cancelled: User cancelled the flow.'' JUndefined"

text \<open>The client's account cache cannot be read.\<close>

definition cache_error :: exn where
  "cache_error = Exn False ''cache unavailable'' [] ''Error: cache unavailable'' JUndefined"

section \<open>Properties\<close>

subsection \<open>Basic facts\<close>

lemmas world_ops =
  emit_def setItem_def removeItem_def getItem_def setUserData_def setIsAuthenticated_def
  setError_def setLoading_def setMsalInstance_def setMsalInitialized_def navigate_def

lemmas store_ops =
  getToken_def setToken_def getUser_def setUser_def isAuthenticated_def clearAuthData_def
  to_storage_string_def

lemma keys_distinct:
  "TOKEN_KEY \<noteq> USER_KEY" "USER_KEY \<noteq> TOKEN_KEY"
  "AUTH_METHOD_KEY \<noteq> TOKEN_KEY" "AUTH_METHOD_KEY \<noteq> USER_KEY"
  "TOKEN_KEY \<noteq> AUTH_METHOD_KEY" "USER_KEY \<noteq> AUTH_METHOD_KEY"
  by (simp_all add: TOKEN_KEY_def USER_KEY_def AUTH_METHOD_KEY_def)

lemma demo_user_serializable: "json_serializable demo_runtime demo_user"
  by (simp add: json_serializable_def demo_runtime_def demo_user_text_def)

subsection \<open>The token store\<close>

text \<open>
  C9. For every token string \<open>t\<close> and every JSON-serializable user record \<open>u\<close>: after
  \<^verbatim>\<open>setToken(t); setUser(u)\<close>, \<^verbatim>\<open>getToken()\<close> is \<open>t\<close> and \<^verbatim>\<open>getUser()\<close> is \<open>u\<close>; after
  \<^verbatim>\<open>clearAuthData()\<close>, both reads give \<^verbatim>\<open>null\<close>.
\<close>

theorem token_store_round_trip:
  assumes "json_serializable rt u"
  shows "getToken (setUser rt u (setToken rt (JStr t) w)) = Some t
       \<and> getUser rt (setUser rt u (setToken rt (JStr t) w)) = u
       \<and> getToken (clearAuthData w) = None
       \<and> getUser rt (clearAuthData w) = JNull"
  using assms
  by (simp add: json_serializable_def store_ops world_ops keys_distinct)

theorem token_store_round_trip_witness:
  "json_serializable demo_runtime demo_user
   \<and> getToken (setUser demo_runtime demo_user
        (setToken demo_runtime (JStr ''abc'') initial_world)) = Some ''abc''
   \<and> getUser demo_runtime (setUser demo_runtime demo_user
        (setToken demo_runtime (JStr ''abc'') initial_world)) = demo_user
   \<and> getToken (clearAuthData initial_world) = None
   \<and> getUser demo_runtime (clearAuthData initial_world) = JNull"
proof -
  have h: "json_serializable demo_runtime demo_user"
    by (rule demo_user_serializable)
  show ?thesis
    using h token_store_round_trip [OF h, of "''abc''" initial_world] by simp
qed

subsection \<open>The authenticated check\<close>

lemma getUser_truthy: "truthy (getUser rt w) = holds_user_record rt w"
  by (simp add: getUser_def getItem_def holds_user_record_def split: option.splits)

lemma handler_auth:
  "isAuthenticated_state (auth_changed_handler rt w) = holds_user_record rt w"
  by (simp add: auth_changed_handler_def Let_def world_ops getUser_truthy)

text \<open>
  C1, as stated, fails. \<^verbatim>\<open>isAuthenticated()\<close> is true over a storage that holds a token and
  no user record, and the handler of \<^verbatim>\<open>nextbi:auth-changed\<close> sets the authenticated flag
  over a storage that holds a user record and no token.
\<close>

theorem authenticated_check_counterexample:
  "isAuthenticated token_only_world
   \<and> \<not> (holds_session_token token_only_world
          \<and> holds_user_record demo_runtime token_only_world)
   \<and> isAuthenticated_state (auth_changed_handler demo_runtime user_only_world)
   \<and> \<not> (holds_session_token user_only_world
          \<and> holds_user_record demo_runtime user_only_world)"
  by (simp add: token_only_world_def user_only_world_def initial_world_def handler_auth
      isAuthenticated_def getToken_def getItem_def holds_session_token_def
      holds_user_record_def keys_distinct demo_runtime_def demo_user_def demo_user_text_def)

text \<open>
  C1, amended. \<^verbatim>\<open>isAuthenticated()\<close> is true if and only if the store holds a non-empty
  session token, whether or not it holds a user record. The handler of
  \<^verbatim>\<open>nextbi:auth-changed\<close> reports authenticated when the store holds both, and never when
  the store holds no user record.
\<close>

theorem authenticated_check:
  "isAuthenticated w = holds_session_token w
   \<and> (holds_session_token w \<and> holds_user_record rt w
        \<longrightarrow> isAuthenticated_state (auth_changed_handler rt w))
   \<and> (\<not> holds_user_record rt w
        \<longrightarrow> \<not> isAuthenticated_state (auth_changed_handler rt w))"
  by (simp add: handler_auth isAuthenticated_def getToken_def getItem_def
      holds_session_token_def)

theorem authenticated_check_witness:
  "holds_session_token session_world \<and> holds_user_record demo_runtime session_world
   \<and> isAuthenticated session_world
   \<and> isAuthenticated_state (auth_changed_handler demo_runtime session_world)
   \<and> \<not> holds_user_record demo_runtime token_only_world
   \<and> \<not> isAuthenticated_state (auth_changed_handler demo_runtime token_only_world)
   \<and> isAuthenticated token_only_world"
proof -
  have a: "holds_session_token session_world"
    by (simp add: session_world_def initial_world_def holds_session_token_def keys_distinct)
  have b: "holds_user_record demo_runtime session_world"
    by (simp add: session_world_def initial_world_def holds_user_record_def keys_distinct
        demo_runtime_def demo_user_def demo_user_text_def)
  have c: "\<not> holds_user_record demo_runtime token_only_world"
    by (simp add: token_only_world_def initial_world_def holds_user_record_def keys_distinct)
  have d: "holds_session_token token_only_world"
    by (simp add: token_only_world_def initial_world_def holds_session_token_def)
  show ?thesis
    using a b c d authenticated_check [of session_world demo_runtime]
      authenticated_check [of token_only_world demo_runtime]
    by simp
qed

subsection \<open>logout\<close>

lemma logout_storage:
  "localStorage (logout c w) = (localStorage w)(TOKEN_KEY := None, USER_KEY := None)"
  by (simp add: logout_def logout_try_def Let_def clearAuthData_def world_ops
      split: outcome.splits)

text \<open>
  C2. After \<^verbatim>\<open>logout()\<close> the token and the user record are gone; the auth-method tag is
  still in storage. Here the storage held a developer session.
\<close>

theorem logout_keeps_auth_method_tag:
  "localStorage (logout c session_world) TOKEN_KEY = None
   \<and> localStorage (logout c session_world) USER_KEY = None
   \<and> localStorage (logout c session_world) AUTH_METHOD_KEY = Some ''dev''"
  by (simp add: logout_storage session_world_def initial_world_def keys_distinct)

text \<open>
  C5. \<^verbatim>\<open>logout()\<close> removes the token and the user record and sets
  \<^verbatim>\<open>isAuthenticated = false\<close> and \<^verbatim>\<open>userData = null\<close> first, whatever the state; the provider's
  sign-out comes after that, and only when the recorded tag is \<^verbatim>\<open>msal\<close> (and a client
  instance is held); the navigation to \<^verbatim>\<open>/login\<close> is the last effect of every run, whatever
  the outcome \<open>c\<close> of the sign-out.
\<close>

theorem logout_teardown_then_navigate:
  "trace (logout c w) =
     trace w @ [RemoveItem TOKEN_KEY, RemoveItem USER_KEY, SetIsAuthenticated False,
                SetUserData JNull]
       @ (if getItem AUTH_METHOD_KEY w = Some ''msal'' \<and> msalInstance w
          then [Msal MsalLogoutPopup] else [])
       @ [Navigate ''/login'']
   \<and> getToken (logout c w) = None
   \<and> getUser rt (logout c w) = JNull
   \<and> isAuthenticated_state (logout c w) = False
   \<and> userData (logout c w) = JNull"
  by (simp add: logout_def logout_try_def Let_def clearAuthData_def world_ops getToken_def
      getUser_def keys_distinct split: outcome.splits)

subsection \<open>The loading flag\<close>

text \<open>
  C6. Startup resolution and \<^verbatim>\<open>login()\<close> return for every outcome of the calls they make,
  and on every path, a thrown exception included, they end by setting \<^verbatim>\<open>loading\<close> to false.
\<close>

theorem loading_false_on_every_path:
  "loading (initializeMsal rt env ls c w) = False
   \<and> last (trace (initializeMsal rt env ls c w)) = SetLoading False
   \<and> loading (login rt env ls c w) = False
   \<and> last (trace (login rt env ls c w)) = SetLoading False"
  by (simp add: initializeMsal_def login_def Let_def setLoading_def emit_def
      split: prod.splits)

subsection \<open>The backend exchanges\<close>

lemma truthy_prop_not_nullish: "truthy (js_prop v p) \<Longrightarrow> \<not> nullish v"
  by (cases v) simp_all

lemma filter_emit [simp]:
  "filter P (trace (emit e w)) = filter P (trace w) @ (if P e then [e] else [])"
  by (simp add: emit_def)

lemma handler_storage [simp]: "localStorage (auth_changed_handler rt w) = localStorage w"
  by (simp add: auth_changed_handler_def Let_def world_ops)

lemma handler_dispatch [simp]:
  "filter is_dispatch (trace (auth_changed_handler rt w)) = filter is_dispatch (trace w)"
  by (simp add: auth_changed_handler_def Let_def world_ops)

lemma dispatchEvent_storage [simp]: "localStorage (dispatchEvent rt n d w) = localStorage w"
  by (simp add: dispatchEvent_def Let_def emit_def)

lemma dispatchEvent_dispatch [simp]:
  "filter is_dispatch (trace (dispatchEvent rt n d w))
     = filter is_dispatch (trace w) @ [DispatchEvent n d]"
  by (simp add: dispatchEvent_def Let_def emit_def)

text \<open>The paths of \<^verbatim>\<open>exchangeAzureToken\<close>, by the response.\<close>

lemma exchangeAzureToken_cases:
  "exchangeAzureToken rt ui post w =
    (let w1 = emit (HttpPost (API_URL @ ''/api/auth/azure'')
                (JObj [(''azureId'', JStr (ui_id ui)),
                       (''displayName'', JStr (ui_displayName ui)),
                       (''email'', JStr (ui_email ui)), (''photoUrl'', ui_photoUrl ui)])) w in
     case post of
       Rejected e \<Rightarrow> (Inl e, w1)
     | Resolved d \<Rightarrow>
         if nullish d then (Inl (TypeError_read d ''success''), w1)
         else if \<not> truthy (js_prop d ''success'')
           then (Inl (new_Error ''Failed to get backend token''), w1)
         else if nullish (js_prop d ''data'')
           then (Inl (TypeError_read (js_prop d ''data'') ''token''), w1)
         else if \<not> truthy (response_token d)
           then (Inl (new_Error ''Failed to get backend token''), w1)
         else (Inr (response_token d),
               setUser rt (if truthy (response_user d) then response_user d
                           else synthesized_user ui)
                 (setToken rt (response_token d) w1)))"
  by (simp add: exchangeAzureToken_def Let_def getprop_def response_token_def
      response_user_def split: outcome.splits)

text \<open>The paths of \<^verbatim>\<open>devLogin\<close>, by the response.\<close>

lemma devLogin_cases:
  "devLogin rt env opts post w =
    (let w1 = emit (HttpPost (API_URL @ ''/api/auth/dev'') (dev_payload env opts)) w in
     case post of
       Rejected e \<Rightarrow> (dev_failure (dev_error_of e), w1)
     | Resolved d \<Rightarrow>
         if nullish d then (dev_failure (dev_error_of (TypeError_read d ''success'')), w1)
         else if truthy (js_prop d ''success'') \<and> truthy (response_token d) then
           (DevResult True (response_token d) (response_user d) (Val JUndefined),
            dispatchEvent rt ''nextbi:auth-changed''
              (JObj [(''method'', JStr ''dev''), (''user'', response_user d)])
              (setUser rt (response_user d) (setToken rt (response_token d) w1)))
         else (dev_failure (Val d), w1))"
  by (auto simp add: devLogin_def Let_def getprop_def getprop_opt_def response_token_def
      response_user_def dest: truthy_prop_not_nullish split: outcome.splits)

lemma setUser_setToken_storage:
  "localStorage (setUser rt u (setToken rt t w)) =
     (localStorage w)(TOKEN_KEY \<mapsto> to_storage_string rt t, USER_KEY \<mapsto> JSON_stringify rt u)"
  by (simp add: setUser_def setToken_def world_ops)

lemma setUser_setToken_dispatch:
  "filter is_dispatch (trace (setUser rt u (setToken rt t w))) = filter is_dispatch (trace w)"
  by (simp add: setUser_def setToken_def setItem_def)

text \<open>
  C3, as stated, fails: a successful \<^verbatim>\<open>exchangeAzureToken\<close> returns the token and dispatches
  no event.
\<close>

theorem exchange_success_counterexample:
  "fst (exchangeAzureToken demo_runtime demo_userInfo (Resolved ok_response) initial_world)
     = Inr (JStr ''abc'')
   \<and> filter is_dispatch
        (trace (snd (exchangeAzureToken demo_runtime demo_userInfo (Resolved ok_response)
                       initial_world))) = []"
  by (simp add: exchangeAzureToken_cases Let_def response_token_def response_user_def
      ok_response_def setUser_setToken_dispatch initial_world_def)

text \<open>
  C3, amended. A successful \<^verbatim>\<open>devLogin\<close> has written the token and the user of its result
  to the store when it returns, and has dispatched exactly one \<^verbatim>\<open>nextbi:auth-changed\<close> event,
  with detail \<^verbatim>\<open>{ method: 'dev', user }\<close>. A successful \<^verbatim>\<open>exchangeAzureToken\<close> has written the
  token it returns and a user record (the response's, or the synthesized one) when it
  returns, and dispatches no event.
\<close>

theorem exchange_success_effects:
  "(dr_success (fst (devLogin rt env opts post w)) \<longrightarrow>
      localStorage (snd (devLogin rt env opts post w)) TOKEN_KEY
        = Some (to_storage_string rt (dr_token (fst (devLogin rt env opts post w))))
    \<and> localStorage (snd (devLogin rt env opts post w)) USER_KEY
        = Some (JSON_stringify rt (dr_user (fst (devLogin rt env opts post w))))
    \<and> filter is_dispatch (trace (snd (devLogin rt env opts post w)))
        = filter is_dispatch (trace w)
          @ [DispatchEvent ''nextbi:auth-changed''
               (JObj [(''method'', JStr ''dev''),
                      (''user'', dr_user (fst (devLogin rt env opts post w)))])])
   \<and> (fst (exchangeAzureToken rt ui post w) = Inr token \<longrightarrow>
      localStorage (snd (exchangeAzureToken rt ui post w)) TOKEN_KEY
        = Some (to_storage_string rt token)
    \<and> (\<exists>d. post = Resolved d
          \<and> token = response_token d
          \<and> localStorage (snd (exchangeAzureToken rt ui post w)) USER_KEY
              = Some (JSON_stringify rt
                  (if truthy (response_user d) then response_user d else synthesized_user ui)))
    \<and> filter is_dispatch (trace (snd (exchangeAzureToken rt ui post w)))
        = filter is_dispatch (trace w))"
proof -
  have dev: "dr_success (fst (devLogin rt env opts post w)) \<longrightarrow>
      localStorage (snd (devLogin rt env opts post w)) TOKEN_KEY
        = Some (to_storage_string rt (dr_token (fst (devLogin rt env opts post w))))
    \<and> localStorage (snd (devLogin rt env opts post w)) USER_KEY
        = Some (JSON_stringify rt (dr_user (fst (devLogin rt env opts post w))))
    \<and> filter is_dispatch (trace (snd (devLogin rt env opts post w)))
        = filter is_dispatch (trace w)
          @ [DispatchEvent ''nextbi:auth-changed''
               (JObj [(''method'', JStr ''dev''),
                      (''user'', dr_user (fst (devLogin rt env opts post w)))])]"
    by (cases post)
      (simp_all add: devLogin_cases Let_def dev_failure_def setUser_setToken_storage
        setUser_setToken_dispatch keys_distinct)
  have az: "fst (exchangeAzureToken rt ui post w) = Inr token \<longrightarrow>
      localStorage (snd (exchangeAzureToken rt ui post w)) TOKEN_KEY
        = Some (to_storage_string rt token)
    \<and> (\<exists>d. post = Resolved d
          \<and> token = response_token d
          \<and> localStorage (snd (exchangeAzureToken rt ui post w)) USER_KEY
              = Some (JSON_stringify rt
                  (if truthy (response_user d) then response_user d else synthesized_user ui)))
    \<and> filter is_dispatch (trace (snd (exchangeAzureToken rt ui post w)))
        = filter is_dispatch (trace w)"
    by (cases post)
      (auto simp add: exchangeAzureToken_cases Let_def setUser_setToken_storage
        setUser_setToken_dispatch keys_distinct split: if_splits)
  from dev az show ?thesis by blast
qed

theorem exchange_success_effects_witness:
  "dr_success (fst (devLogin demo_runtime demo_env None (Resolved ok_response) initial_world))
   \<and> localStorage (snd (devLogin demo_runtime demo_env None (Resolved ok_response) initial_world))
       TOKEN_KEY = Some ''abc''
   \<and> localStorage (snd (devLogin demo_runtime demo_env None (Resolved ok_response) initial_world))
       USER_KEY = Some demo_user_text
   \<and> filter is_dispatch
       (trace (snd (devLogin demo_runtime demo_env None (Resolved ok_response) initial_world)))
       = [DispatchEvent ''nextbi:auth-changed'' (JObj [(''method'', JStr ''dev''), (''user'', demo_user)])]
   \<and> fst (exchangeAzureToken demo_runtime demo_userInfo (Resolved ok_response) initial_world)
       = Inr (JStr ''abc'')
   \<and> localStorage (snd (exchangeAzureToken demo_runtime demo_userInfo (Resolved ok_response)
        initial_world)) TOKEN_KEY = Some ''abc''"
proof -
  have r: "fst (devLogin demo_runtime demo_env None (Resolved ok_response) initial_world)
             = DevResult True (JStr ''abc'') demo_user (Val JUndefined)"
    by (simp add: devLogin_cases Let_def response_token_def response_user_def ok_response_def)
  have a: "fst (exchangeAzureToken demo_runtime demo_userInfo (Resolved ok_response) initial_world)
             = Inr (JStr ''abc'')"
    by (simp add: exchangeAzureToken_cases Let_def response_token_def response_user_def
        ok_response_def)
  have s: "JSON_stringify demo_runtime demo_user = demo_user_text"
    by (simp add: demo_runtime_def)
  have i: "trace initial_world = []"
    by (simp add: initial_world_def)
  show ?thesis
    using r a s i
      exchange_success_effects [of demo_runtime demo_env None "Resolved ok_response"
        initial_world demo_userInfo "JStr ''abc''"]
    by (simp add: to_storage_string_def)
qed

text \<open>
  C4, as stated, fails: on a \<^verbatim>\<open>success: false\<close> response \<^verbatim>\<open>exchangeAzureToken\<close> throws a new
  \<^verbatim>\<open>Error('Failed to get backend token')\<close>, which does not carry the response body.
\<close>

theorem exchange_failure_counterexample:
  "fst (exchangeAzureToken demo_runtime demo_userInfo (Resolved boom_response) initial_world)
     = Inl (new_Error ''Failed to get backend token'')
   \<and> response_data (new_Error ''Failed to get backend token'') \<noteq> boom_response
   \<and> message (new_Error ''Failed to get backend token'') = ''Failed to get backend token''"
  by (simp add: exchangeAzureToken_cases Let_def boom_response_def new_Error_def)

text \<open>
  C4, amended. A failed exchange writes nothing to storage. \<^verbatim>\<open>devLogin\<close> returns
  \<^verbatim>\<open>success: false\<close> with, as \<^verbatim>\<open>error\<close>, \<^verbatim>\<open>error.response?.data || error.message || error\<close> when
  the request rejects, and the whole response body when the response is a refusal.
  \<^verbatim>\<open>exchangeAzureToken\<close> rethrows the rejection as it is when the request rejects, and throws
  the fixed \<^verbatim>\<open>Error('Failed to get backend token')\<close> when the response says
  \<^verbatim>\<open>success: false\<close>.
\<close>

theorem exchange_failure_effects:
  "(\<not> dr_success (fst (devLogin rt env opts post w)) \<longrightarrow>
      localStorage (snd (devLogin rt env opts post w)) = localStorage w
    \<and> filter is_storage_write (trace (snd (devLogin rt env opts post w)))
        = filter is_storage_write (trace w))
   \<and> (post = Rejected e \<longrightarrow>
        fst (devLogin rt env opts post w) = dev_failure (dev_error_of e))
   \<and> (post = Resolved d \<and> \<not> nullish d \<and> \<not> dr_success (fst (devLogin rt env opts post w)) \<longrightarrow>
        fst (devLogin rt env opts post w) = dev_failure (Val d))
   \<and> (fst (exchangeAzureToken rt ui post w) = Inl thrown \<longrightarrow>
        localStorage (snd (exchangeAzureToken rt ui post w)) = localStorage w
      \<and> filter is_storage_write (trace (snd (exchangeAzureToken rt ui post w)))
          = filter is_storage_write (trace w))
   \<and> (post = Rejected e \<longrightarrow> fst (exchangeAzureToken rt ui post w) = Inl e)
   \<and> (post = Resolved d \<and> \<not> nullish d \<and> \<not> truthy (js_prop d ''success'') \<longrightarrow>
        fst (exchangeAzureToken rt ui post w) = Inl (new_Error ''Failed to get backend token''))"
proof -
  have w1: "\<And>url b. localStorage (emit (HttpPost url b) w) = localStorage w"
    by (simp add: emit_def)
  have dev: "\<not> dr_success (fst (devLogin rt env opts post w)) \<longrightarrow>
      localStorage (snd (devLogin rt env opts post w)) = localStorage w
    \<and> filter is_storage_write (trace (snd (devLogin rt env opts post w)))
        = filter is_storage_write (trace w)"
    by (cases post) (simp_all add: devLogin_cases Let_def w1)
  have dev_rej: "post = Rejected e \<longrightarrow>
        fst (devLogin rt env opts post w) = dev_failure (dev_error_of e)"
    by (simp add: devLogin_cases Let_def)
  have dev_res: "post = Resolved d \<and> \<not> nullish d
        \<and> \<not> dr_success (fst (devLogin rt env opts post w)) \<longrightarrow>
        fst (devLogin rt env opts post w) = dev_failure (Val d)"
    by (auto simp add: devLogin_cases Let_def dev_failure_def)
  have az: "fst (exchangeAzureToken rt ui post w) = Inl thrown \<longrightarrow>
        localStorage (snd (exchangeAzureToken rt ui post w)) = localStorage w
      \<and> filter is_storage_write (trace (snd (exchangeAzureToken rt ui post w)))
          = filter is_storage_write (trace w)"
    by (cases post) (simp_all add: exchangeAzureToken_cases Let_def w1)
  have az_rej: "post = Rejected e \<longrightarrow> fst (exchangeAzureToken rt ui post w) = Inl e"
    by (simp add: exchangeAzureToken_cases Let_def)
  have az_res: "post = Resolved d \<and> \<not> nullish d \<and> \<not> truthy (js_prop d ''success'') \<longrightarrow>
        fst (exchangeAzureToken rt ui post w) = Inl (new_Error ''Failed to get backend token'')"
    by (auto simp add: exchangeAzureToken_cases Let_def)
  from dev dev_rej dev_res az az_rej az_res show ?thesis by blast
qed

theorem exchange_failure_effects_witness:
  "fst (devLogin demo_runtime demo_env None (Rejected network_error) initial_world)
     = dev_failure (Val (JStr ''Network Error''))
   \<and> localStorage (snd (devLogin demo_runtime demo_env None (Rejected network_error)
        initial_world)) = Map.empty
   \<and> fst (exchangeAzureToken demo_runtime demo_userInfo (Rejected network_error) initial_world)
     = Inl network_error
   \<and> localStorage (snd (exchangeAzureToken demo_runtime demo_userInfo (Rejected network_error)
        initial_world)) = Map.empty
   \<and> \<not> nullish boom_response \<and> \<not> truthy (js_prop boom_response ''success'')
   \<and> fst (devLogin demo_runtime demo_env None (Resolved boom_response) initial_world)
     = dev_failure (Val boom_response)
   \<and> fst (exchangeAzureToken demo_runtime demo_userInfo (Resolved boom_response) initial_world)
     = Inl (new_Error ''Failed to get backend token'')"
proof -
  have n: "\<not> nullish boom_response" "\<not> truthy (js_prop boom_response ''success'')"
    by (simp_all add: boom_response_def)
  have f: "\<not> dr_success (fst (devLogin demo_runtime demo_env None (Resolved boom_response)
             initial_world))"
    using n by (simp add: devLogin_cases Let_def dev_failure_def)
  have e: "dev_error_of network_error = Val (JStr ''Network Error'')"
    by (simp add: dev_error_of_def network_error_def)
  have i: "localStorage initial_world = Map.empty"
    by (simp add: initial_world_def)
  note a = exchange_failure_effects [of demo_runtime demo_env None "Rejected network_error"
      initial_world network_error boom_response demo_userInfo network_error]
  note b = exchange_failure_effects [of demo_runtime demo_env None "Resolved boom_response"
      initial_world network_error boom_response demo_userInfo network_error]
  show ?thesis
    using n f e i a b by (simp add: dev_failure_def)
qed

text \<open>
  C10. When the response of the provider exchange is a success with a token and no user
  record, \<^verbatim>\<open>exchangeAzureToken\<close> does not fail: it returns the token, and stores it with a
  user record made of the caller's \<^verbatim>\<open>id\<close>, \<^verbatim>\<open>displayName\<close> and \<^verbatim>\<open>email\<close>.
\<close>

theorem provider_exchange_synthesizes_user:
  assumes "post = Resolved d"
    and "truthy (js_prop d ''success'')"
    and "truthy (response_token d)"
    and "\<not> truthy (response_user d)"
  shows "fst (exchangeAzureToken rt ui post w) = Inr (response_token d)
       \<and> localStorage (snd (exchangeAzureToken rt ui post w)) =
           (localStorage w)(TOKEN_KEY \<mapsto> to_storage_string rt (response_token d),
                            USER_KEY \<mapsto> JSON_stringify rt (synthesized_user ui))
       \<and> synthesized_user ui =
           JObj [(''id'', JStr (ui_id ui)), (''displayName'', JStr (ui_displayName ui)),
                 (''email'', JStr (ui_email ui))]"
proof -
  have "\<not> nullish d"
    using assms(2) by (rule truthy_prop_not_nullish)
  moreover have "\<not> nullish (js_prop d ''data'')"
    using assms(3) unfolding response_token_def by (rule truthy_prop_not_nullish)
  ultimately show ?thesis
    using assms
    by (simp add: exchangeAzureToken_cases Let_def setUser_setToken_storage emit_def
        synthesized_user_def)
qed

theorem provider_exchange_synthesizes_user_witness:
  "truthy (js_prop no_user_response ''success'')
   \<and> truthy (response_token no_user_response)
   \<and> \<not> truthy (response_user no_user_response)
   \<and> fst (exchangeAzureToken demo_runtime demo_userInfo (Resolved no_user_response) initial_world)
       = Inr (JStr ''abc'')
   \<and> localStorage (snd (exchangeAzureToken demo_runtime demo_userInfo (Resolved no_user_response)
        initial_world)) =
       [TOKEN_KEY \<mapsto> ''abc'',
        USER_KEY \<mapsto> JSON_stringify demo_runtime
          (JObj [(''id'', JStr ''42''), (''displayName'', JStr ''Ada''),
                 (''email'', JStr ''ada@example.org'')])]"
proof -
  have a: "truthy (js_prop no_user_response ''success'')"
    by (simp add: no_user_response_def)
  have b: "truthy (response_token no_user_response)"
    by (simp add: no_user_response_def response_token_def)
  have c: "\<not> truthy (response_user no_user_response)"
    by (simp add: no_user_response_def response_user_def)
  have t: "response_token no_user_response = JStr ''abc''"
    by (simp add: no_user_response_def response_token_def)
  have i: "localStorage initial_world = Map.empty"
    by (simp add: initial_world_def)
  show ?thesis
    using a b c
      provider_exchange_synthesizes_user [OF refl a b c, of demo_runtime demo_userInfo initial_world]
    by (simp add: t i to_storage_string_def demo_userInfo_def)
qed

subsection \<open>Access tokens\<close>

lemma demo_env_dev: "isDevAuthEnabled demo_env"
  by (simp add: isDevAuthEnabled_def demo_env_def)

lemma prod_env_not_dev: "\<not> isDevAuthEnabled prod_env"
  by (simp add: isDevAuthEnabled_def prod_env_def getClientEnv_def)

text \<open>
  C8, as stated, fails: \<^verbatim>\<open>getAccessToken()\<close> does not return \<^verbatim>\<open>null\<close> on every other failure.
  When the silent acquisition fails with interaction-required and the popup is then
  closed, and when \<^verbatim>\<open>getAllAccounts\<close> throws, the returned promise rejects.
\<close>

theorem getAccessToken_counterexample:
  "fst (getAccessToken prod_env
          (demo_calls\<lparr>acquireTokenSilent := Rejected interaction_error,
                       acquireTokenPopup := Rejected popup_cancelled\<rparr>) provider_world)
     = Inl popup_cancelled
   \<and> fst (getAccessToken prod_env (demo_calls\<lparr>getAllAccounts := Rejected cache_error\<rparr>)
            provider_world)
     = Inl cache_error"
  by (simp add: getAccessToken_def Let_def isDevAuthEnabled_def prod_env_def getClientEnv_def
      provider_world_def initial_world_def demo_calls_def interaction_error_def)

text \<open>
  C8, amended. In developer mode \<^verbatim>\<open>getAccessToken()\<close> returns the stored session token. In
  provider mode it returns \<^verbatim>\<open>null\<close> without a client instance or without a cached account;
  otherwise it asks for a token silently for the first cached account, asks by popup
  exactly when the silent failure is interaction-required (and returns the popup's token
  when the popup gives one), and returns \<^verbatim>\<open>null\<close> on any other failure of the silent
  acquisition.
\<close>

theorem getAccessToken_paths:
  "(isDevAuthEnabled env \<longrightarrow> getAccessToken env c w = (Inr (getToken w), w))
   \<and> (\<not> isDevAuthEnabled env \<and> \<not> msalInstance w \<longrightarrow> getAccessToken env c w = (Inr None, w))
   \<and> (\<not> isDevAuthEnabled env \<and> msalInstance w \<and> getAllAccounts c = Resolved [] \<longrightarrow>
        fst (getAccessToken env c w) = Inr None
        \<and> trace (snd (getAccessToken env c w)) = trace w @ [Msal MsalGetAllAccounts])
   \<and> (\<not> isDevAuthEnabled env \<and> msalInstance w \<and> getAllAccounts c = Resolved (a # rest) \<longrightarrow>
        trace (snd (getAccessToken env c w)) =
          trace w @ [Msal MsalGetAllAccounts, Msal (MsalAcquireTokenSilent a)]
            @ (if silent_needs_interaction c then [Msal MsalAcquireTokenPopup] else [])
        \<and> (acquireTokenSilent c = Resolved t \<longrightarrow> fst (getAccessToken env c w) = Inr (Some t))
        \<and> (silent_needs_interaction c \<and> acquireTokenPopup c = Resolved t \<longrightarrow>
              fst (getAccessToken env c w) = Inr (Some t))
        \<and> (acquireTokenSilent c = Rejected e \<and> \<not> interaction_required e \<longrightarrow>
              fst (getAccessToken env c w) = Inr None))"
  by (auto simp add: getAccessToken_def Let_def emit_def silent_needs_interaction_def
      split: outcome.splits list.splits)

theorem getAccessToken_paths_witness:
  "isDevAuthEnabled demo_env \<and> \<not> isDevAuthEnabled prod_env
   \<and> msalInstance provider_world \<and> \<not> msalInstance initial_world
   \<and> fst (getAccessToken demo_env demo_calls session_world) = Inr (Some ''abc'')
   \<and> fst (getAccessToken prod_env demo_calls initial_world) = Inr None
   \<and> fst (getAccessToken prod_env (demo_calls\<lparr>getAllAccounts := Resolved []\<rparr>) provider_world)
       = Inr None
   \<and> fst (getAccessToken prod_env demo_calls provider_world) = Inr (Some ''provider-token'')
   \<and> fst (getAccessToken prod_env (demo_calls\<lparr>acquireTokenSilent := Rejected interaction_error\<rparr>)
        provider_world) = Inr (Some ''popup-token'')
   \<and> trace (snd (getAccessToken prod_env
        (demo_calls\<lparr>acquireTokenSilent := Rejected interaction_error\<rparr>) provider_world))
       = [Msal MsalGetAllAccounts, Msal (MsalAcquireTokenSilent demo_account),
          Msal MsalAcquireTokenPopup]
   \<and> fst (getAccessToken prod_env (demo_calls\<lparr>acquireTokenSilent := Rejected network_error\<rparr>)
        provider_world) = Inr None
   \<and> trace (snd (getAccessToken prod_env
        (demo_calls\<lparr>acquireTokenSilent := Rejected network_error\<rparr>) provider_world))
       = [Msal MsalGetAllAccounts, Msal (MsalAcquireTokenSilent demo_account)]"
proof -
  have w: "msalInstance provider_world" "\<not> msalInstance initial_world"
    "trace provider_world = []"
    by (simp_all add: provider_world_def initial_world_def)
  have t: "getToken session_world = Some ''abc''"
    by (simp add: getToken_def getItem_def session_world_def initial_world_def keys_distinct)
  have i: "silent_needs_interaction (demo_calls\<lparr>acquireTokenSilent := Rejected interaction_error\<rparr>)"
    "\<not> silent_needs_interaction (demo_calls\<lparr>acquireTokenSilent := Rejected network_error\<rparr>)"
    "\<not> interaction_required network_error"
    by (simp_all add: silent_needs_interaction_def interaction_error_def network_error_def)
  note dev = getAccessToken_paths [of demo_env demo_calls session_world]
  note noinst = getAccessToken_paths [of prod_env demo_calls initial_world]
  note noacc = getAccessToken_paths
    [of prod_env "demo_calls\<lparr>getAllAccounts := Resolved []\<rparr>" provider_world]
  note silent = getAccessToken_paths
    [of prod_env demo_calls provider_world demo_account "[]" "''provider-token''"]
  note popup = getAccessToken_paths
    [of prod_env "demo_calls\<lparr>acquireTokenSilent := Rejected interaction_error\<rparr>"
      provider_world demo_account "[]" "''popup-token''"]
  note other = getAccessToken_paths
    [of prod_env "demo_calls\<lparr>acquireTokenSilent := Rejected network_error\<rparr>"
      provider_world demo_account "[]" _ network_error]
  show ?thesis
    using demo_env_dev prod_env_not_dev w t i dev noinst noacc silent popup other
    by (simp add: demo_calls_def)
qed

subsection \<open>Startup with developer bypass\<close>






lemma devLogin_split:
  "devLogin rt env opts post w = devLogin_receive rt post (devLogin_send env opts w)"
  by (simp add: devLogin_def devLogin_receive_def devLogin_send_def Let_def)

lemma handler_exchange [simp]:
  "filter is_exchange (trace (auth_changed_handler rt w)) = filter is_exchange (trace w)"
  by (simp add: auth_changed_handler_def Let_def world_ops)

lemma devLogin_receive_exchange [simp]:
  "filter is_exchange (trace (snd (devLogin_receive rt post w))) = filter is_exchange (trace w)"
  by (simp add: devLogin_receive_def Let_def dispatchEvent_def setUser_def setToken_def
      setItem_def getprop_def split: outcome.splits sum.splits)

lemma devLogin_send_exchange [simp]:
  "filter is_exchange (trace (devLogin_send env opts w))
     = filter is_exchange (trace w) @ [HttpPost (API_URL @ ''/api/auth/dev'') (dev_payload env opts)]"
  by (simp add: devLogin_send_def)

lemma devLogin_send_reads [simp]:
  "localStorage (devLogin_send env opts w) = localStorage w"
  "getUser rt (devLogin_send env opts w) = getUser rt w"
  by (simp_all add: devLogin_send_def emit_def getUser_def getItem_def)

lemma finish_exchange [simp]:
  "filter is_exchange (trace (initializeMsal_dev_finish r w)) = filter is_exchange (trace w)"
  by (simp add: initializeMsal_dev_finish_def world_ops)

lemma listening_trace [simp]: "trace (w\<lparr>listening := b\<rparr>) = trace w"
  by simp






text \<open>Without a seeding \<^verbatim>\<open>App\<close>, the mount is \<^verbatim>\<open>initializeMsal\<close>.\<close>

lemma listening_same: "listening w \<Longrightarrow> w\<lparr>listening := True\<rparr> = w"
  by simp

lemma setters_listening [simp]:
  "listening (setLoading b w) = listening w"
  "listening (setIsAuthenticated a w) = listening w"
  "listening (setUserData v w) = listening w"
  "listening (devLogin_send env opts w) = listening w"
  by (simp_all add: world_ops devLogin_send_def)

lemma dev_mount_without_seed:
  assumes "isDevAuthEnabled env" and "\<not> app_seed_wanted env w" and "listening w"
  shows "dev_mount rt env ls seed_post (axios_post_dev c) seed_first w
           = initializeMsal rt env ls c w"
  using assms
  by (simp add: dev_mount_def initializeMsal_def initializeMsal_try_def Let_def devLogin_split
      initializeMsal_dev_finish_def listening_same case_prod_beta)






end
